theory Spec2Isabelle
  imports Main "HOL-Library.AList" "HOL-Library.Char_ord" "HOL-Library.List_Lexorder"
    "HOL-Library.Multiset"
begin

section \<open>Strings and dictionaries of the pipeline\<close>

text \<open>
  A Python \<open>str\<close> is a sequence of code points. It is modelled as a \<open>string\<close>, each
  \<open>char\<close> standing for the code point of the same number (0 to 255): on that range
  \<open>str.lower\<close> maps A-Z and the capital letters 0xC0-0xDE (the multiplication sign 0xD7
  apart) to the code point 32 places higher and leaves every other one alone, and the
  result stays in the range. Comparison of two \<open>str\<close> is lexicographic on code points,
  which is the order of \<open>HOL-Library.List_Lexorder\<close> over \<open>HOL-Library.Char_ord\<close>.

  A JSON object is an association list in insertion order (\<open>dict\<close> keeps that order).
  The records of both stages hold strings only (section 6 of the specification), so an
  item is a list of pairs of strings, and the object a stage reads or writes maps a
  bucket name to a list of items.
\<close>

type_synonym item = "(string \<times> string) list"

type_synonym buckets = "(string \<times> item list) list"

definition lower_char :: "char \<Rightarrow> char" where
  "lower_char c =
     (let n = (of_char c :: nat)
      in if (65 \<le> n \<and> n \<le> 90) \<or> (192 \<le> n \<and> n \<le> 222 \<and> n \<noteq> 215)
         then char_of (n + 32) else c)"

definition lower :: "string \<Rightarrow> string" where
  "lower s = map lower_char s"

text \<open>\<open>s.replace(old, new)\<close> where \<open>old\<close> and \<open>new\<close> are one character each.\<close>

definition replace :: "char \<Rightarrow> char \<Rightarrow> string \<Rightarrow> string" where
  "replace old new s = map (\<lambda>c. if c = old then new else c) s"

text \<open>
  \<open>str.isspace\<close> on one code point below 256: tab to carriage return, the four
  separators 0x1C-0x1F, the space, NEL (0x85) and the no-break space (0xA0).
  \<open>s.strip()\<close> drops the whitespace at both ends.
\<close>

definition isspace :: "char \<Rightarrow> bool" where
  "isspace c =
     (let n = (of_char c :: nat)
      in (9 \<le> n \<and> n \<le> 13) \<or> (28 \<le> n \<and> n \<le> 32) \<or> n = 133 \<or> n = 160)"

definition strip :: "string \<Rightarrow> string" where
  "strip s = rev (dropWhile isspace (rev (dropWhile isspace s)))"

text \<open>\<open>s.split(sep)\<close> for a separator of one character: the empty string gives \<open>['']\<close>.\<close>

fun split :: "char \<Rightarrow> string \<Rightarrow> string list" where
  "split sep [] = [[]]"
| "split sep (c # cs) =
     (if c = sep then [] # split sep cs
      else (case split sep cs of
              [] \<Rightarrow> [[c]]
            | w # ws \<Rightarrow> (c # w) # ws))"

text \<open>\<open>d.get(k, default)\<close> and the assignment \<open>d[k] = v\<close>.\<close>

definition dict_get :: "('k \<times> 'v) list \<Rightarrow> 'k \<Rightarrow> 'v \<Rightarrow> 'v" where
  "dict_get d k dflt = (case map_of d k of None \<Rightarrow> dflt | Some v \<Rightarrow> v)"

definition dict_set :: "('k \<times> 'v) list \<Rightarrow> 'k \<Rightarrow> 'v \<Rightarrow> ('k \<times> 'v) list" where
  "dict_set d k v = AList.update k v d"

section \<open>resolver.py\<close>

text \<open>
  \<open>get_brew_list\<close> runs \<open>brew formulae\<close> and \<open>brew casks\<close>. Each run either raises
  (\<open>None\<close>: no binary, a non-zero exit) or gives its output text. The bare \<open>except\<close>
  turns a failure of either into the empty set.
\<close>

definition get_brew_list :: "string option \<Rightarrow> string option \<Rightarrow> string set" where
  "get_brew_list formulae_out casks_out =
     (case formulae_out of
        None \<Rightarrow> {}
      | Some f \<Rightarrow>
          (case casks_out of
             None \<Rightarrow> {}
           | Some c \<Rightarrow>
               set (split (CHR 0x0A) (strip f)) \<union> set (split (CHR 0x0A) (strip c))))"

definition normalize_name :: "string \<Rightarrow> string" where
  "normalize_name name = replace (CHR ''_'') (CHR ''-'') (replace (CHR '' '') (CHR ''-'') (lower name))"

text \<open>The list comprehension over the lines of the file.\<close>

definition read_apps :: "string list \<Rightarrow> string list" where
  "read_apps lines = map strip (filter (\<lambda>line. strip line \<noteq> []) lines)"

text \<open>The loop over \<open>apps\<close>, with the two lists it appends to.\<close>

fun resolve_loop :: "string set \<Rightarrow> string list \<Rightarrow> item list \<times> item list \<Rightarrow> item list \<times> item list" where
  "resolve_loop brew_available [] (resolved, unresolved) = (resolved, unresolved)"
| "resolve_loop brew_available (app # apps) (resolved, unresolved) =
     (let norm = normalize_name app
      in if norm \<in> brew_available
         then resolve_loop brew_available apps
                (resolved @ [[(''app'', app), (''command'', norm)]], unresolved)
         else resolve_loop brew_available apps
                (resolved, unresolved @ [[(''app'', app), (''normalized'', norm)]]))"

text \<open>
  \<open>main\<close> of the resolver: the file of \<open>--apps-raw\<close> is \<open>None\<close> when the path does
  not exist, and the list of its lines otherwise. The result is the object written to
  \<open>--output\<close>.
\<close>

definition resolver_main :: "string list option \<Rightarrow> string set \<Rightarrow> buckets" where
  "resolver_main apps_raw brew_available =
     (let (resolved, unresolved) =
            (case apps_raw of
               None \<Rightarrow> ([], [])
             | Some lines \<Rightarrow> resolve_loop brew_available (read_apps lines) ([], []))
      in [(''brew_installable'', resolved), (''unresolved'', unresolved)])"

section \<open>enrich.py\<close>

definition VENDOR_MAP :: "(string \<times> string) list" where
  "VENDOR_MAP =
     [(''github-desktop'', ''https://desktop.github.com''),
      (''visual-studio-code'', ''https://code.visualstudio.com''),
      (''chrome'', ''https://www.google.com/chrome''),
      (''firefox'', ''https://www.mozilla.org/firefox''),
      (''vlc'', ''https://www.videolan.org''),
      (''discord'', ''https://discord.com/download''),
      (''telegram'', ''https://telegram.org''),
      (''whatsapp'', ''https://www.whatsapp.com/download''),
      (''slack'', ''https://slack.com/downloads''),
      (''zoom'', ''https://zoom.us/download'')]"

text \<open>The body of the loop over the unresolved items: two assignments to the item.\<close>

definition enrich_item :: "item \<Rightarrow> item" where
  "enrich_item item =
     (let norm = lower (dict_get item ''normalized'' [])
      in case map_of VENDOR_MAP norm of
           Some url \<Rightarrow>
             dict_set (dict_set item ''official_download_url'' url) ''confidence'' ''high''
         | None \<Rightarrow>
             dict_set (dict_set item ''official_download_url'' ''Not found'') ''confidence'' ''low'')"

fun enrich_loop :: "item list \<Rightarrow> item list" where
  "enrich_loop [] = []"
| "enrich_loop (item # items) = enrich_item item # enrich_loop items"

definition app_key :: "item \<Rightarrow> string" where
  "app_key x = dict_get x ''app'' []"

text \<open>
  \<open>main\<close> of the enricher: the file of \<open>--resolved\<close> is \<open>None\<close> when the path does
  not exist, and the parsed object otherwise. \<open>sorted\<close> is stable, as \<open>sort_key\<close> is.
\<close>

definition enrich_main :: "buckets option \<Rightarrow> buckets" where
  "enrich_main resolved =
     (let unresolved =
            (case resolved of
               None \<Rightarrow> []
             | Some data \<Rightarrow> enrich_loop (dict_get data ''unresolved'' []))
      in [(''unresolved'', sort_key app_key unresolved)])"

section \<open>The normalization as the specification words it\<close>


section \<open>Properties of the normalization\<close>






lemma normalize_name_example:
  "normalize_name ''Visual Studio_Code'' = ''visual-studio-code''"
  by code_simp

section \<open>Properties of the resolver\<close>

lemma resolve_loop_eq:
  "resolve_loop brew_available apps (resolved, unresolved) =
     (resolved @ map (\<lambda>app. [(''app'', app), (''command'', normalize_name app)])
                   (filter (\<lambda>app. normalize_name app \<in> brew_available) apps),
      unresolved @ map (\<lambda>app. [(''app'', app), (''normalized'', normalize_name app)])
                     (filter (\<lambda>app. normalize_name app \<notin> brew_available) apps))"
  by (induction apps arbitrary: resolved unresolved) (simp_all add: Let_def)

lemma resolver_main_Some:
  "resolver_main (Some lines) brew_available =
     [(''brew_installable'',
        map (\<lambda>app. [(''app'', app), (''command'', normalize_name app)])
          (filter (\<lambda>app. normalize_name app \<in> brew_available) (read_apps lines))),
      (''unresolved'',
        map (\<lambda>app. [(''app'', app), (''normalized'', normalize_name app)])
          (filter (\<lambda>app. normalize_name app \<notin> brew_available) (read_apps lines)))]"
  by (simp add: resolver_main_def resolve_loop_eq)

text \<open>
  Claim C1. For every file of lines and every catalog, with \<open>read_apps lines\<close> the app
  names: the bucket \<open>brew_installable\<close> is, in input order, the apps whose normalized
  name is in the catalog, each as \<open>{app, command: normalize(app)}\<close>; the bucket
  \<open>unresolved\<close> is, in input order, the other apps, each as
  \<open>{app, normalized: normalize(app)}\<close>; and the two buckets share no record.
\<close>

theorem resolver_main_partitions:
  "resolver_main (Some lines) brew_available =
     [(''brew_installable'',
        map (\<lambda>app. [(''app'', app), (''command'', normalize_name app)])
          (filter (\<lambda>app. normalize_name app \<in> brew_available) (read_apps lines))),
      (''unresolved'',
        map (\<lambda>app. [(''app'', app), (''normalized'', normalize_name app)])
          (filter (\<lambda>app. normalize_name app \<notin> brew_available) (read_apps lines)))] \<and>
   set (dict_get (resolver_main (Some lines) brew_available) ''brew_installable'' []) \<inter>
   set (dict_get (resolver_main (Some lines) brew_available) ''unresolved'' []) = {} \<and>
   app_key ` set (dict_get (resolver_main (Some lines) brew_available) ''brew_installable'' []) \<inter>
   app_key ` set (dict_get (resolver_main (Some lines) brew_available) ''unresolved'' []) = {}"
  by (auto simp add: resolver_main_Some dict_get_def app_key_def)

lemma resolver_main_example:
  "resolver_main (Some [''Visual Studio Code'', ''Google Chrome'']) {''visual-studio-code''} =
     [(''brew_installable'', [[(''app'', ''Visual Studio Code''), (''command'', ''visual-studio-code'')]]),
      (''unresolved'', [[(''app'', ''Google Chrome''), (''normalized'', ''google-chrome'')]])]"
  by code_simp

text \<open>
  Claim C8. When the path of \<open>--apps-raw\<close> does not exist, the resolver writes two
  empty buckets, whatever the catalog.
\<close>

theorem resolver_main_no_file:
  "resolver_main None brew_available = [(''brew_installable'', []), (''unresolved'', [])]"
  by (simp add: resolver_main_def)

lemma get_brew_list_failed:
  "formulae_out = None \<or> casks_out = None \<Longrightarrow> get_brew_list formulae_out casks_out = {}"
  by (auto simp add: get_brew_list_def split: option.split)

text \<open>
  Claim C5. When one of the two catalog queries fails, \<open>get_brew_list\<close> gives the empty
  set and the resolver still writes its object: \<open>brew_installable\<close> is empty and
  \<open>unresolved\<close> holds every app name of the input, in input order.
\<close>

theorem resolver_main_catalog_failure:
  assumes "formulae_out = None \<or> casks_out = None"
  shows "get_brew_list formulae_out casks_out = {} \<and>
         resolver_main (Some lines) (get_brew_list formulae_out casks_out) =
           [(''brew_installable'', []),
            (''unresolved'',
               map (\<lambda>app. [(''app'', app), (''normalized'', normalize_name app)]) (read_apps lines))] \<and>
         map app_key (dict_get (resolver_main (Some lines) (get_brew_list formulae_out casks_out))
                        ''unresolved'' []) = read_apps lines"
  using assms
  by (simp add: get_brew_list_failed resolver_main_Some dict_get_def app_key_def comp_def)

theorem resolver_main_catalog_failure_witness:
  "((None :: string option) = None \<or> Some ''zoom\<newline>slack'' = None) \<and>
   resolver_main (Some [''Zoom\<newline>'', ''  \<newline>'', '' Google Chrome\<newline>''])
       (get_brew_list None (Some ''zoom\<newline>slack'')) =
     [(''brew_installable'', []),
      (''unresolved'',
         [[(''app'', ''Zoom''), (''normalized'', ''zoom'')],
          [(''app'', ''Google Chrome''), (''normalized'', ''google-chrome'')]])]"
proof -
  have r: "read_apps [''Zoom\<newline>'', ''  \<newline>'', '' Google Chrome\<newline>''] = [''Zoom'', ''Google Chrome'']"
    by code_simp
  have n: "normalize_name ''Zoom'' = ''zoom''" "normalize_name ''Google Chrome'' = ''google-chrome''"
    by code_simp+
  have h: "(None :: string option) = None \<or> Some ''zoom\<newline>slack'' = None"
    by simp
  from resolver_main_catalog_failure
         [OF h, of "[''Zoom\<newline>'', ''  \<newline>'', '' Google Chrome\<newline>'']"]
  have "resolver_main (Some [''Zoom\<newline>'', ''  \<newline>'', '' Google Chrome\<newline>''])
          (get_brew_list None (Some ''zoom\<newline>slack'')) =
        [(''brew_installable'', []),
         (''unresolved'',
            map (\<lambda>app. [(''app'', app), (''normalized'', normalize_name app)])
              (read_apps [''Zoom\<newline>'', ''  \<newline>'', '' Google Chrome\<newline>'']))]"
    by blast
  then show ?thesis
    by (simp add: r n)
qed

text \<open>
  Claim C6. For every input and every catalog, each record of the bucket \<open>unresolved\<close>
  has an \<open>app\<close> field and a \<open>normalized\<close> field, and the second is \<open>normalize_name\<close>
  of the first.
\<close>

theorem unresolved_normalized_invariant:
  "\<forall>r \<in> set (dict_get (resolver_main apps_raw brew_available) ''unresolved'' []).
     \<exists>app. map_of r ''app'' = Some app \<and> map_of r ''normalized'' = Some (normalize_name app) \<and>
           dict_get r ''normalized'' [] = normalize_name (dict_get r ''app'' [])"
proof (cases apps_raw)
  case None
  then show ?thesis by (simp add: resolver_main_def dict_get_def)
next
  case (Some lines)
  then show ?thesis by (auto simp add: resolver_main_Some dict_get_def)
qed

theorem unresolved_normalized_invariant_witness:
  "[(''app'', ''Google Chrome''), (''normalized'', ''google-chrome'')]
     \<in> set (dict_get (resolver_main (Some [''Visual Studio Code'', ''Google Chrome''])
                        {''visual-studio-code''}) ''unresolved'' []) \<and>
   normalize_name ''Google Chrome'' = ''google-chrome''"
proof -
  have m: "[(''app'', ''Google Chrome''), (''normalized'', ''google-chrome'')]
     \<in> set (dict_get (resolver_main (Some [''Visual Studio Code'', ''Google Chrome''])
                        {''visual-studio-code''}) ''unresolved'' [])"
    by code_simp
  from unresolved_normalized_invariant
         [of "Some [''Visual Studio Code'', ''Google Chrome'']" "{''visual-studio-code''}"] m
  have "\<exists>app. map_of [(''app'', ''Google Chrome''), (''normalized'', ''google-chrome'')] ''app'' = Some app \<and>
          map_of [(''app'', ''Google Chrome''), (''normalized'', ''google-chrome'')] ''normalized'' =
            Some (normalize_name app)"
    by blast
  then have "normalize_name ''Google Chrome'' = ''google-chrome''"
    by simp
  with m show ?thesis by simp
qed

section \<open>Properties of the enricher\<close>


lemma enrich_loop_map: "enrich_loop items = map enrich_item items"
  by (induction items) simp_all

lemma enrich_main_Some:
  "dict_get (enrich_main (Some data)) ''unresolved'' [] =
     sort_key app_key (map enrich_item (dict_get data ''unresolved'' []))"
  by (simp add: enrich_main_def dict_get_def enrich_loop_map)

lemma map_of_enrich_item:
  "map_of (enrich_item item) =
     (map_of item)
       (''official_download_url'' \<mapsto>
          (case map_of VENDOR_MAP (lower (dict_get item ''normalized'' [])) of
             None \<Rightarrow> ''Not found'' | Some url \<Rightarrow> url),
        ''confidence'' \<mapsto>
          (case map_of VENDOR_MAP (lower (dict_get item ''normalized'' [])) of
             None \<Rightarrow> ''low'' | Some url \<Rightarrow> ''high''))"
  by (simp add: enrich_item_def dict_set_def update_conv' Let_def split: option.split)

lemma app_key_enrich_item: "app_key (enrich_item item) = app_key item"
  by (simp add: app_key_def dict_get_def map_of_enrich_item)

lemma vendor_discord: "map_of VENDOR_MAP (lower ''discord'') = Some ''https://discord.com/download''"
  by code_simp

lemma vendor_empty: "map_of VENDOR_MAP (lower []) = None"
  by code_simp

text \<open>
  Claim C2. The list the enricher writes is the sorted list of the enriched items, and
  for every item: when the lowercased \<open>normalized\<close> field is a key of \<open>VENDOR_MAP\<close>, the
  enriched record has the table's value as \<open>official_download_url\<close> and \<open>high\<close> as
  \<open>confidence\<close>; otherwise it has \<open>Not found\<close> and \<open>low\<close>. An item whose
  \<open>normalized\<close> is \<open>discord\<close> gets \<open>https://discord.com/download\<close> and \<open>high\<close>.
\<close>

theorem enrich_item_lookup:
  "dict_get (enrich_main (Some data)) ''unresolved'' [] =
     sort_key app_key (map enrich_item (dict_get data ''unresolved'' [])) \<and>
   map_of (enrich_item item) ''official_download_url'' =
     Some (case map_of VENDOR_MAP (lower (dict_get item ''normalized'' [])) of
             None \<Rightarrow> ''Not found'' | Some url \<Rightarrow> url) \<and>
   map_of (enrich_item item) ''confidence'' =
     Some (if lower (dict_get item ''normalized'' []) \<in> fst ` set VENDOR_MAP
           then ''high'' else ''low'') \<and>
   (map_of item ''normalized'' = Some ''discord'' \<longrightarrow>
      map_of (enrich_item item) ''official_download_url'' = Some ''https://discord.com/download'' \<and>
      map_of (enrich_item item) ''confidence'' = Some ''high'')"
proof (intro conjI impI)
  show "dict_get (enrich_main (Some data)) ''unresolved'' [] =
     sort_key app_key (map enrich_item (dict_get data ''unresolved'' []))"
    by (rule enrich_main_Some)
  show "map_of (enrich_item item) ''official_download_url'' =
     Some (case map_of VENDOR_MAP (lower (dict_get item ''normalized'' [])) of
             None \<Rightarrow> ''Not found'' | Some url \<Rightarrow> url)"
    by (simp add: map_of_enrich_item)
  show "map_of (enrich_item item) ''confidence'' =
     Some (if lower (dict_get item ''normalized'' []) \<in> fst ` set VENDOR_MAP
           then ''high'' else ''low'')"
  proof (cases "map_of VENDOR_MAP (lower (dict_get item ''normalized'' []))")
    case None
    then have "lower (dict_get item ''normalized'' []) \<notin> fst ` set VENDOR_MAP"
      by (simp add: map_of_eq_None_iff)
    with None show ?thesis by (simp add: map_of_enrich_item)
  next
    case (Some url)
    then have "lower (dict_get item ''normalized'' []) \<in> fst ` set VENDOR_MAP"
      by (metis map_of_eq_None_iff option.distinct(1))
    with Some show ?thesis by (simp add: map_of_enrich_item)
  qed
next
  assume d: "map_of item ''normalized'' = Some ''discord''"
  then have g: "dict_get item ''normalized'' [] = ''discord''"
    by (simp add: dict_get_def)
  show "map_of (enrich_item item) ''official_download_url'' = Some ''https://discord.com/download''"
    by (simp add: map_of_enrich_item g vendor_discord)
  show "map_of (enrich_item item) ''confidence'' = Some ''high''"
    by (simp add: map_of_enrich_item g vendor_discord)
qed

theorem enrich_item_lookup_witness:
  "map_of [(''app'', ''Discord''), (''normalized'', ''discord'')] ''normalized'' = Some ''discord'' \<and>
   map_of (enrich_item [(''app'', ''Discord''), (''normalized'', ''discord'')]) ''official_download_url'' =
     Some ''https://discord.com/download'' \<and>
   map_of (enrich_item [(''app'', ''Discord''), (''normalized'', ''discord'')]) ''confidence'' = Some ''high''"
proof -
  have m: "map_of [(''app'', ''Discord''), (''normalized'', ''discord'')] ''normalized'' = Some ''discord''"
    by simp
  from enrich_item_lookup [of "[]" "[(''app'', ''Discord''), (''normalized'', ''discord'')]"] m
  show ?thesis by blast
qed

text \<open>
  Claim C7. When the path of \<open>--resolved\<close> does not exist, or the object read has no
  \<open>unresolved\<close> key, the enricher writes \<open>{"unresolved": []}\<close>.
\<close>

theorem enrich_main_missing_input:
  "enrich_main None = [(''unresolved'', [])] \<and>
   (map_of data ''unresolved'' = None \<longrightarrow> enrich_main (Some data) = [(''unresolved'', [])])"
  by (simp add: enrich_main_def dict_get_def)

theorem enrich_main_missing_input_witness:
  "map_of [(''brew_installable'', [[(''app'', ''Zoom''), (''command'', ''zoom'')]])] ''unresolved'' = None \<and>
   enrich_main (Some [(''brew_installable'', [[(''app'', ''Zoom''), (''command'', ''zoom'')]])]) =
     [(''unresolved'', [])]"
  using enrich_main_missing_input [of "[(''brew_installable'', [[(''app'', ''Zoom''), (''command'', ''zoom'')]])]"]
  by simp

text \<open>
  Claim C10. An item with no \<open>normalized\<close> field is enriched all the same: the field
  reads as the empty string, the empty string is no key of \<open>VENDOR_MAP\<close>, and the
  record gets \<open>Not found\<close> and \<open>low\<close>; no \<open>normalized\<close> field is added.
\<close>

theorem enrich_item_missing_normalized:
  assumes "map_of item ''normalized'' = None"
  shows "dict_get item ''normalized'' [] = [] \<and>
         map_of VENDOR_MAP (lower []) = None \<and>
         map_of (enrich_item item) ''official_download_url'' = Some ''Not found'' \<and>
         map_of (enrich_item item) ''confidence'' = Some ''low'' \<and>
         map_of (enrich_item item) ''normalized'' = None"
proof -
  from assms have g: "dict_get item ''normalized'' [] = []"
    by (simp add: dict_get_def)
  show ?thesis
    using assms by (simp add: g map_of_enrich_item vendor_empty)
qed

theorem enrich_item_missing_normalized_witness:
  "map_of [(''app'', ''Zoom'')] ''normalized'' = None \<and>
   enrich_item [(''app'', ''Zoom'')] =
     [(''app'', ''Zoom''), (''official_download_url'', ''Not found''), (''confidence'', ''low'')]"
proof -
  have e: "enrich_item [(''app'', ''Zoom'')] =
     [(''app'', ''Zoom''), (''official_download_url'', ''Not found''), (''confidence'', ''low'')]"
    by code_simp
  show ?thesis
    using enrich_item_missing_normalized [of "[(''app'', ''Zoom'')]"] e by simp
qed

lemma zoom_airtable: "\<not> ''Zoom'' \<le> ''Airtable''"
  by code_simp

lemma app_key_dict_set: "app_key (dict_set x ''app'' v) = v"
  by (simp add: app_key_def dict_get_def dict_set_def update_conv')

text \<open>
  Claim C4. The list the enricher writes is the list of enriched items in ascending
  order of the key \<open>app_key\<close> (the \<open>app\<close> field, the empty string when the field is
  missing; strings compared code point by code point); it holds the same records as
  often; records of equal key keep the order of the input; the key of an enriched
  record is that of the input record; the empty string is below every key, so a record
  without \<open>app\<close> comes before every record with a non-empty one. Two items whose
  \<open>app\<close> fields are \<open>Zoom\<close> and \<open>Airtable\<close>, in this order, come out with Airtable first.
\<close>

theorem enrich_main_sorted_stable:
  "sorted (map app_key (dict_get (enrich_main (Some data)) ''unresolved'' [])) \<and>
   mset (dict_get (enrich_main (Some data)) ''unresolved'' []) =
     mset (map enrich_item (dict_get data ''unresolved'' [])) \<and>
   filter (\<lambda>x. app_key x = k) (dict_get (enrich_main (Some data)) ''unresolved'' []) =
     filter (\<lambda>x. app_key x = k) (map enrich_item (dict_get data ''unresolved'' [])) \<and>
   app_key (enrich_item x) = (case map_of x ''app'' of None \<Rightarrow> [] | Some a \<Rightarrow> a) \<and>
   [] \<le> app_key y \<and>
   map app_key
     (dict_get (enrich_main (Some [(''unresolved'',
        [dict_set z ''app'' ''Zoom'', dict_set a ''app'' ''Airtable''])])) ''unresolved'' []) =
     [''Airtable'', ''Zoom'']"
proof (intro conjI)
  show "sorted (map app_key (dict_get (enrich_main (Some data)) ''unresolved'' []))"
    by (simp add: enrich_main_Some)
  show "mset (dict_get (enrich_main (Some data)) ''unresolved'' []) =
     mset (map enrich_item (dict_get data ''unresolved'' []))"
    by (simp add: enrich_main_Some)
  show "filter (\<lambda>x. app_key x = k) (dict_get (enrich_main (Some data)) ''unresolved'' []) =
     filter (\<lambda>x. app_key x = k) (map enrich_item (dict_get data ''unresolved'' []))"
    by (simp only: enrich_main_Some sort_key_stable)
  show "app_key (enrich_item x) = (case map_of x ''app'' of None \<Rightarrow> [] | Some a \<Rightarrow> a)"
    by (simp add: app_key_enrich_item) (simp add: app_key_def dict_get_def)
  show "[] \<le> app_key y"
    by simp
  have "dict_get [(''unresolved'', [dict_set z ''app'' ''Zoom'', dict_set a ''app'' ''Airtable''])]
          ''unresolved'' [] = [dict_set z ''app'' ''Zoom'', dict_set a ''app'' ''Airtable'']"
    by (simp add: dict_get_def)
  then show "map app_key
     (dict_get (enrich_main (Some [(''unresolved'',
        [dict_set z ''app'' ''Zoom'', dict_set a ''app'' ''Airtable''])])) ''unresolved'' []) =
     [''Airtable'', ''Zoom'']"
    by (simp add: enrich_main_Some app_key_enrich_item app_key_dict_set zoom_airtable)
qed

text \<open>
  Claim C9. The list the enricher writes has the length of the input list and holds,
  record for record, the enriched input records. An enriched record is the input record
  with the fields \<open>official_download_url\<close> and \<open>confidence\<close> set: every other key,
  \<open>app\<close> and \<open>normalized\<close> among them, has the value it had (or is absent as it was),
  and the keys are those of the input and these two.
\<close>

theorem enrich_main_frame:
  "length (dict_get (enrich_main (Some data)) ''unresolved'' []) =
     length (dict_get data ''unresolved'' []) \<and>
   mset (dict_get (enrich_main (Some data)) ''unresolved'' []) =
     image_mset enrich_item (mset (dict_get data ''unresolved'' [])) \<and>
   (\<exists>u c. map_of (enrich_item x) =
            (map_of x)(''official_download_url'' \<mapsto> u, ''confidence'' \<mapsto> c)) \<and>
   map_of (enrich_item x) ''app'' = map_of x ''app'' \<and>
   map_of (enrich_item x) ''normalized'' = map_of x ''normalized'' \<and>
   fst ` set (enrich_item x) = fst ` set x \<union> {''official_download_url'', ''confidence''}"
proof (intro conjI)
  show "length (dict_get (enrich_main (Some data)) ''unresolved'' []) =
     length (dict_get data ''unresolved'' [])"
    by (simp add: enrich_main_Some)
  show "mset (dict_get (enrich_main (Some data)) ''unresolved'' []) =
     image_mset enrich_item (mset (dict_get data ''unresolved'' []))"
    by (simp add: enrich_main_Some)
  show "\<exists>u c. map_of (enrich_item x) =
            (map_of x)(''official_download_url'' \<mapsto> u, ''confidence'' \<mapsto> c)"
    using map_of_enrich_item [of x] by blast
  show "map_of (enrich_item x) ''app'' = map_of x ''app''"
    by (simp add: map_of_enrich_item)
  show "map_of (enrich_item x) ''normalized'' = map_of x ''normalized''"
    by (simp add: map_of_enrich_item)
  show "fst ` set (enrich_item x) = fst ` set x \<union> {''official_download_url'', ''confidence''}"
    by (auto simp add: enrich_item_def dict_set_def dom_update Let_def split: option.split)
qed

lemma enrich_main_example:
  "enrich_main (Some [(''unresolved'',
      [[(''app'', ''Zoom''), (''normalized'', ''zoom'')],
       [(''app'', ''Google Chrome''), (''normalized'', ''google-chrome'')],
       [(''normalized'', ''Discord'')]])]) =
   [(''unresolved'',
      [[(''normalized'', ''Discord''), (''official_download_url'', ''https://discord.com/download''),
        (''confidence'', ''high'')],
       [(''app'', ''Google Chrome''), (''normalized'', ''google-chrome''),
        (''official_download_url'', ''Not found''), (''confidence'', ''low'')],
       [(''app'', ''Zoom''), (''normalized'', ''zoom''),
        (''official_download_url'', ''https://zoom.us/download''), (''confidence'', ''high'')]])]"
  by code_simp

end
